theory Spec2Isabelle
  imports Complex_Main "HOL-Library.AList"
begin

section \<open>Strings\<close>

text \<open>
  Labels (fitness goals, gym preferences, amenities) are JavaScript strings. They are
  modelled as \<open>string\<close> restricted to ASCII: \<open>toLowerCase\<close> maps \<open>A\<close>..\<open>Z\<close> to
  \<open>a\<close>..\<open>z\<close> and leaves every other character alone, \<open>str_includes\<close> is
  \<open>String.prototype.includes\<close> (contiguous substring, the empty string is included
  in every string), \<open>split_space\<close> is \<open>s.split(' ')\<close>.
\<close>

definition toLowerCaseChar :: "char \<Rightarrow> char" where
  "toLowerCaseChar c =
     (let n = (of_char c :: nat) in if 65 \<le> n \<and> n \<le> 90 then char_of (n + 32) else c)"

definition toLowerCase :: "string \<Rightarrow> string" where
  "toLowerCase s = map toLowerCaseChar s"

fun startsWith :: "string \<Rightarrow> string \<Rightarrow> bool" where
  "startsWith s [] = True"
| "startsWith [] (d # t) = False"
| "startsWith (c # s) (d # t) = (c = d \<and> startsWith s t)"

fun str_includes :: "string \<Rightarrow> string \<Rightarrow> bool" where
  "str_includes [] t = (t = [])"
| "str_includes (c # s) t = (startsWith (c # s) t \<or> str_includes s t)"

fun split_space :: "string \<Rightarrow> string list" where
  "split_space [] = [[]]"
| "split_space (c # s) =
     (if c = CHR '' '' then [] # split_space s
      else (case split_space s of [] \<Rightarrow> [[c]] | w # ws \<Rightarrow> (c # w) # ws))"

section \<open>Data model\<close>

text \<open>
  The rows of \<open>shared/schema.ts\<close>, with the columns the modelled operations read or
  write. \<open>fitness_goals\<close>, \<open>gym_preferences\<close> and \<open>amenities\<close> are nullable text
  arrays, hence \<open>string list option\<close>. Ids are JavaScript numbers holding integers.
  Timestamps are abstract clock readings.
\<close>

record User =
  user_id :: int
  username :: string
  fitnessGoals :: "string list option"
  gymPreferences :: "string list option"

record Gym =
  gym_id :: int
  gym_name :: string
  amenities :: "string list option"

section \<open>The scorer of \<open>MemStorage.getMatchesForUser\<close>\<close>

definition goalToAmenity :: "(string \<times> string list) list" where
  "goalToAmenity =
     [(''Build Muscle'', [''Free Weights'', ''Weight Training'', ''Personal Training'', ''Strength Equipment'']),
      (''Weight Loss'', [''Cardio Equipment'', ''Classes'', ''Swimming Pool'', ''Group Training'']),
      (''Improve Strength'', [''Free Weights'', ''Weight Training'', ''CrossFit'', ''Functional Training'']),
      (''Cardio'', [''Treadmills'', ''Ellipticals'', ''Rowing Machines'', ''Cardio Equipment'']),
      (''Flexibility'', [''Yoga Classes'', ''Stretching Area'', ''Group Classes'']),
      (''Endurance'', [''Cardio Equipment'', ''Swimming Pool'', ''Running Track'']),
      (''Agility'', [''Functional Training'', ''CrossFit'', ''Group Classes''])]"

text \<open>The loop over \<open>Object.entries(goalToAmenity)\<close>, then the generic fallback.\<close>

definition relatedAmenities :: "string \<Rightarrow> string list" where
  "relatedAmenities goalLower =
     (let related =
        fold (\<lambda>(knownGoal, amenities) related.
                if str_includes goalLower (toLowerCase knownGoal) \<or>
                   str_includes (toLowerCase knownGoal) goalLower
                then related @ amenities else related)
             goalToAmenity []
      in if length related = 0 then [''Classes'', ''Personal Training'', ''Equipment'']
         else related)"

text \<open>
  The two nested \<open>forEach\<close> loops of one goal, over the related amenities and the gym's
  amenities. The state is \<open>(amenityMatchCount, foundMatch)\<close>.
\<close>

definition scan_related :: "string list \<Rightarrow> string list \<Rightarrow> nat \<times> bool \<Rightarrow> nat \<times> bool" where
  "scan_related related gymAmenities =
     fold (\<lambda>amenity.
             fold (\<lambda>gymAmenity (amenityMatchCount, foundMatch).
                     if str_includes (toLowerCase gymAmenity) (toLowerCase amenity) \<or>
                        str_includes (toLowerCase amenity) (toLowerCase gymAmenity)
                     then (amenityMatchCount + 1, True)
                     else (amenityMatchCount, foundMatch))
                  gymAmenities)
          related"

text \<open>One iteration of \<open>user.fitnessGoals.forEach\<close>; the state is
  \<open>(matchCount, amenityMatchCount)\<close>.\<close>

definition goal_step :: "string list \<Rightarrow> string \<Rightarrow> nat \<times> nat \<Rightarrow> nat \<times> nat" where
  "goal_step gymAmenities goal = (\<lambda>(matchCount, amenityMatchCount).
     (let (amenityMatchCount', foundMatch) =
            scan_related (relatedAmenities (toLowerCase goal)) gymAmenities
              (amenityMatchCount, False)
      in (if foundMatch then matchCount + 1 else matchCount, amenityMatchCount')))"

definition goal_counts :: "string list \<Rightarrow> string list \<Rightarrow> nat \<times> nat" where
  "goal_counts goals gymAmenities = fold (goal_step gymAmenities) goals (0, 0)"

definition goalMatchPercentage :: "string list \<Rightarrow> string list \<Rightarrow> real" where
  "goalMatchPercentage goals gymAmenities =
     real (fst (goal_counts goals gymAmenities)) / real (length goals)"

text \<open>The three local variables of the callback.\<close>

record score_acc =
  matchScore :: real
  totalFactors :: nat
  matchingFactors :: real

text \<open>
  The block guarded by
  \<open>user.fitnessGoals && gym.amenities && user.fitnessGoals.length > 0\<close>. An empty
  array is truthy, so a gym whose amenity list is empty (but not null) enters the block.
\<close>

definition goal_dimension :: "User \<Rightarrow> Gym \<Rightarrow> score_acc \<Rightarrow> score_acc" where
  "goal_dimension user gym acc =
     (case (fitnessGoals user, amenities gym) of
        (Some goals, Some gymAmenities) \<Rightarrow>
          if length goals > 0 then
            (let acc1 = acc\<lparr>totalFactors := totalFactors acc + 1\<rparr>;
                 amenityMatchCount = snd (goal_counts goals gymAmenities);
                 acc2 = (if length goals > 0 then
                           (if goalMatchPercentage goals gymAmenities > 0.5
                            then acc1\<lparr>matchingFactors :=
                                   matchingFactors acc1 + goalMatchPercentage goals gymAmenities\<rparr>
                            else acc1)
                         else acc1)
             in acc2\<lparr>matchScore := matchScore acc2 + real (min 15 (amenityMatchCount * 3))\<rparr>)
          else acc
      | _ \<Rightarrow> acc)"

text \<open>The test of one (preference, amenity) pair.\<close>

definition preferenceMatches1 :: "string \<Rightarrow> string \<Rightarrow> bool" where
  "preferenceMatches1 preference amenity =
     (let prefLower = toLowerCase preference; amenityLower = toLowerCase amenity
      in str_includes prefLower amenityLower \<or> str_includes amenityLower prefLower \<or>
         list_ex (\<lambda>word. str_includes prefLower word \<and> length word > 3)
                 (split_space amenityLower))"

definition preferenceMatches :: "string list \<Rightarrow> string list \<Rightarrow> nat" where
  "preferenceMatches preferences gymAmenities =
     fold (\<lambda>preference.
             fold (\<lambda>amenity n. if preferenceMatches1 preference amenity then n + 1 else n)
                  gymAmenities)
          preferences 0"

text \<open>
  The block guarded by
  \<open>user.gymPreferences && user.gymPreferences.length > 0 && gym.amenities\<close>.
\<close>

definition preference_dimension :: "User \<Rightarrow> Gym \<Rightarrow> score_acc \<Rightarrow> score_acc" where
  "preference_dimension user gym acc =
     (case (gymPreferences user, amenities gym) of
        (Some preferences, Some gymAmenities) \<Rightarrow>
          if length preferences > 0 then
            (let acc1 = acc\<lparr>totalFactors := totalFactors acc + 1\<rparr>;
                 n = preferenceMatches preferences gymAmenities
             in if length preferences > 0 then
                  (let prefMatchPercentage = min 1 (real n / real (length preferences))
                   in acc1\<lparr>matchingFactors := matchingFactors acc1 + prefMatchPercentage,
                           matchScore := matchScore acc1 + real (min 20 (n * 5))\<rparr>)
                else acc1)
          else acc
      | _ \<Rightarrow> acc)"

definition factor_adjustment :: "score_acc \<Rightarrow> score_acc" where
  "factor_adjustment acc =
     (if totalFactors acc > 0
      then acc\<lparr>matchScore :=
                 matchScore acc + (matchingFactors acc / real (totalFactors acc)) * 20\<rparr>
      else acc)"

definition initial_acc :: score_acc where
  "initial_acc = \<lparr>matchScore = 70, totalFactors = 0, matchingFactors = 0\<rparr>"

text \<open>
  The callback of \<open>allGyms.map\<close>. JavaScript numbers are modelled as reals and
  \<open>Math.round\<close>, which rounds halves up, as \<^const>\<open>round\<close>. The two quotients are
  exact here and rounded to a double in JavaScript, so the two can differ only where the
  exact sum is a half-integer that the doubles miss; no bound proved below depends on it,
  and the concrete scores computed below pass through exactly representable values only.
\<close>

definition mem_matchScore :: "User \<Rightarrow> Gym \<Rightarrow> int" where
  "mem_matchScore user gym =
     min 100 (round (matchScore
       (factor_adjustment (preference_dimension user gym (goal_dimension user gym initial_acc)))))"

section \<open>The scorer of \<open>DatabaseStorage.getMatchesForUser\<close>\<close>

text \<open>
  \<open>goalToAmenity[goal] || []\<close> is a property read on an object literal. A goal that is
  one of the three own keys yields its array. A goal that names a property inherited from
  \<open>Object.prototype\<close> yields that property, a function (or, for \<open>__proto__\<close>, the
  prototype object): it is truthy, so the \<open>|| []\<close> default is not taken, and it has no
  \<open>forEach\<close>, so the call \<open>relatedAmenities.forEach(...)\<close> throws a TypeError. Any
  other goal yields \<open>undefined\<close> and the default \<open>[]\<close>.
\<close>

datatype js_error = TypeError | Error string

datatype property = Own "string list" | Inherited | Undefined

definition db_goalToAmenity :: "(string \<times> string list) list" where
  "db_goalToAmenity =
     [(''Build Muscle'', [''Free Weights'', ''Weight Training'', ''Personal Training'']),
      (''Weight Loss'', [''Cardio Equipment'', ''Classes'', ''Swimming Pool'']),
      (''Improve Strength'', [''Free Weights'', ''Weight Training'', ''CrossFit''])]"

definition Object_prototype_names :: "string list" where
  "Object_prototype_names =
     [''constructor'', ''hasOwnProperty'', ''isPrototypeOf'', ''propertyIsEnumerable'',
      ''toLocaleString'', ''toString'', ''valueOf'', ''__proto__'',
      ''__defineGetter__'', ''__defineSetter__'', ''__lookupGetter__'', ''__lookupSetter__'']"

definition db_lookup :: "string \<Rightarrow> property" where
  "db_lookup goal =
     (case map_of db_goalToAmenity goal of
        Some related \<Rightarrow> Own related
      | None \<Rightarrow> if goal \<in> set Object_prototype_names then Inherited else Undefined)"

text \<open>\<open>relatedAmenities.forEach\<close>: two points for each related amenity that is an
  element of \<open>gym.amenities\<close> (\<open>Array.prototype.includes\<close>, exact equality).\<close>

definition db_boost :: "string list \<Rightarrow> string list \<Rightarrow> int \<Rightarrow> int" where
  "db_boost related gymAmenities =
     fold (\<lambda>amenity score.
             if amenity \<in> set gymAmenities then score + 2 else score)
          related"

text \<open>\<open>user.fitnessGoals.forEach\<close>; the exception leaves the loop at once.\<close>

fun db_goals_loop :: "string list \<Rightarrow> string list \<Rightarrow> int \<Rightarrow> js_error + int" where
  "db_goals_loop [] gymAmenities score = Inr score"
| "db_goals_loop (goal # goals) gymAmenities score =
     (case db_lookup goal of
        Own related \<Rightarrow> db_goals_loop goals gymAmenities (db_boost related gymAmenities score)
      | Inherited \<Rightarrow> Inl TypeError
      | Undefined \<Rightarrow> db_goals_loop goals gymAmenities score)"

text \<open>
  The callback of \<open>allGyms.map\<close>. Its first argument is the value that this call of
  \<open>Math.random()\<close> returns, a number in \<open>[0, 1)\<close>.
\<close>

definition db_matchScore :: "real \<Rightarrow> User \<Rightarrow> Gym \<Rightarrow> js_error + int" where
  "db_matchScore random user gym =
     (let score = \<lfloor>random * 15\<rfloor> + 75
      in case (fitnessGoals user, amenities gym) of
           (Some goals, Some gymAmenities) \<Rightarrow>
             (case db_goals_loop goals gymAmenities score of
                Inl e \<Rightarrow> Inl e
              | Inr score' \<Rightarrow> Inr (min score' 100))
         | _ \<Rightarrow> Inr (min score 100))"

section \<open>The two storages\<close>

record SavedGym =
  sg_id :: int
  sg_userId :: int
  sg_gymId :: int
  sg_matchScore :: "int option"
  sg_savedAt :: nat

record UserMatch =
  um_id :: int
  um_senderId :: int
  um_receiverId :: int
  um_status :: string
  um_matchScore :: "int option"
  um_createdAt :: nat
  um_updatedAt :: nat

record Message =
  msg_id :: int
  msg_senderId :: int
  msg_receiverId :: int
  msg_content :: string
  msg_read :: bool
  msg_createdAt :: nat

text \<open>
  \<open>MemStorage\<close>: each \<open>Map\<close> is an association list in insertion order, so that
  \<open>Map.get\<close> is \<^const>\<open>map_of\<close>, \<open>Map.set\<close> is \<^const>\<open>AList.update\<close> (an existing key
  keeps its place, a new key goes last) and \<open>Map.values()\<close> is \<open>map snd\<close>. The key
  \<open>`${userId}-${gymId}`\<close> of the saved-gym map is modelled by the pair of the two numbers.
\<close>

record MemStorage =
  userStore :: "(int \<times> User) list"
  gymStore :: "(int \<times> Gym) list"
  savedGymStore :: "((int \<times> int) \<times> SavedGym) list"
  userMatchStore :: "(int \<times> UserMatch) list"
  messageStore :: "(int \<times> Message) list"
  savedGymIdCounter :: int
  userMatchIdCounter :: int
  messageIdCounter :: int

text \<open>
  \<open>DatabaseStorage\<close>: each table is the list of its rows, in the order in which a
  \<open>select\<close> without \<open>orderBy\<close> returns them; each \<open>serial\<close> primary key has its
  sequence. Rows are only ever inserted with the next value of the sequence, so the
  primary-key constraint rejects no insert and is not modelled.
\<close>

record DatabaseStorage =
  users :: "User list"
  gyms :: "Gym list"
  savedGyms :: "SavedGym list"
  userMatches :: "UserMatch list"
  messages :: "Message list"
  savedGyms_id_seq :: int
  userMatches_id_seq :: int
  messages_id_seq :: int

subsection \<open>Users, gyms and recommendations\<close>

definition Mem_getUser :: "MemStorage \<Rightarrow> int \<Rightarrow> User option" where
  "Mem_getUser st userId = map_of (userStore st) userId"

definition Mem_getAllGyms :: "MemStorage \<Rightarrow> Gym list" where
  "Mem_getAllGyms st = map snd (gymStore st)"

text \<open>\<open>Array.prototype.sort\<close> is stable; \<^const>\<open>sort_key\<close> is a stable insertion sort.\<close>

definition by_score_desc :: "(Gym \<times> int) list \<Rightarrow> (Gym \<times> int) list" where
  "by_score_desc rows = sort_key (\<lambda>(gym, score). - score) rows"

definition Mem_getMatchesForUser :: "MemStorage \<Rightarrow> int \<Rightarrow> (Gym \<times> int) list" where
  "Mem_getMatchesForUser st userId =
     (case Mem_getUser st userId of
        None \<Rightarrow> []
      | Some user \<Rightarrow>
          by_score_desc (map (\<lambda>gym. (gym, mem_matchScore user gym)) (Mem_getAllGyms st)))"

text \<open>\<open>getUser\<close> of the database storage replaces a null array by the empty array.\<close>

definition Db_getUser :: "DatabaseStorage \<Rightarrow> int \<Rightarrow> User option" where
  "Db_getUser st userId =
     (case filter (\<lambda>u. user_id u = userId) (users st) of
        [] \<Rightarrow> None
      | dbUser # _ \<Rightarrow>
          Some (dbUser\<lparr>fitnessGoals := Some (case fitnessGoals dbUser of None \<Rightarrow> [] | Some a \<Rightarrow> a),
                        gymPreferences := Some (case gymPreferences dbUser of None \<Rightarrow> [] | Some a \<Rightarrow> a)\<rparr>))"

definition Db_getAllGyms :: "DatabaseStorage \<Rightarrow> Gym list" where
  "Db_getAllGyms st = gyms st"

text \<open>\<open>allGyms.map\<close>: \<open>random i\<close> is the value of the \<open>i\<close>-th call of
  \<open>Math.random()\<close> in this invocation, one call for each gym.\<close>

fun db_score_gyms :: "(nat \<Rightarrow> real) \<Rightarrow> nat \<Rightarrow> User \<Rightarrow> Gym list \<Rightarrow> js_error + (Gym \<times> int) list" where
  "db_score_gyms random i user [] = Inr []"
| "db_score_gyms random i user (gym # rest) =
     (case db_matchScore (random i) user gym of
        Inl e \<Rightarrow> Inl e
      | Inr score \<Rightarrow>
          (case db_score_gyms random (i + 1) user rest of
             Inl e \<Rightarrow> Inl e
           | Inr scored \<Rightarrow> Inr ((gym, score) # scored)))"

definition Db_getMatchesForUser ::
  "(nat \<Rightarrow> real) \<Rightarrow> DatabaseStorage \<Rightarrow> int \<Rightarrow> js_error + (Gym \<times> int) list" where
  "Db_getMatchesForUser random st userId =
     (case Db_getUser st userId of
        None \<Rightarrow> Inr []
      | Some user \<Rightarrow>
          (case db_score_gyms random 0 user (Db_getAllGyms st) of
             Inl e \<Rightarrow> Inl e
           | Inr scored \<Rightarrow> Inr (by_score_desc scored)))"

subsection \<open>Saved gyms\<close>

text \<open>
  \<open>InsertSavedGym\<close>: \<open>matchScore\<close> is an optional, nullable integer; \<open>None\<close> stands
  for a score that is \<open>null\<close> or absent, which take the same branches in
  \<open>MemStorage.saveGym\<close>.
\<close>

record InsertSavedGym =
  isg_userId :: int
  isg_gymId :: int
  isg_matchScore :: "int option"

definition Mem_getSavedGym :: "MemStorage \<Rightarrow> int \<Rightarrow> int \<Rightarrow> SavedGym option" where
  "Mem_getSavedGym st userId gymId = map_of (savedGymStore st) (userId, gymId)"

text \<open>The test \<open>if (savedGymData.matchScore)\<close>: a number is truthy unless it is zero.\<close>

definition truthy :: "int option \<Rightarrow> bool" where
  "truthy v = (case v of None \<Rightarrow> False | Some n \<Rightarrow> n \<noteq> 0)"

definition Mem_saveGym :: "nat \<Rightarrow> InsertSavedGym \<Rightarrow> MemStorage \<Rightarrow> SavedGym \<times> MemStorage" where
  "Mem_saveGym now savedGymData st =
     (let userId = isg_userId savedGymData; gymId = isg_gymId savedGymData;
          key = (userId, gymId)
      in case Mem_getSavedGym st userId gymId of
           Some existing \<Rightarrow>
             if truthy (isg_matchScore savedGymData) then
               (let existing' = existing\<lparr>sg_matchScore := isg_matchScore savedGymData\<rparr>
                in (existing', st\<lparr>savedGymStore := AList.update key existing' (savedGymStore st)\<rparr>))
             else (existing, st)
         | None \<Rightarrow>
             (let savedGym = \<lparr>sg_id = savedGymIdCounter st, sg_userId = userId, sg_gymId = gymId,
                             sg_matchScore = isg_matchScore savedGymData, sg_savedAt = now\<rparr>
              in (savedGym, st\<lparr>savedGymIdCounter := savedGymIdCounter st + 1,
                              savedGymStore := AList.update key savedGym (savedGymStore st)\<rparr>)))"

text \<open>A destructuring \<open>const [row] = await db.select()...\<close> takes the first row, if any.\<close>

definition first_row :: "'a list \<Rightarrow> 'a option" where
  "first_row rows = (case rows of [] \<Rightarrow> None | row # _ \<Rightarrow> Some row)"

subsection \<open>User matches\<close>


text \<open>The either-direction condition of \<open>getUserMatchByUsers\<close>.\<close>

definition connects :: "int \<Rightarrow> int \<Rightarrow> UserMatch \<Rightarrow> bool" where
  "connects senderId receiverId m =
     ((um_senderId m = senderId \<and> um_receiverId m = receiverId) \<or>
      (um_senderId m = receiverId \<and> um_receiverId m = senderId))"




definition Db_getUserMatch :: "DatabaseStorage \<Rightarrow> int \<Rightarrow> UserMatch option" where
  "Db_getUserMatch st matchId = first_row (filter (\<lambda>m. um_id m = matchId) (userMatches st))"

definition Db_getUserMatchByUsers :: "DatabaseStorage \<Rightarrow> int \<Rightarrow> int \<Rightarrow> UserMatch option" where
  "Db_getUserMatchByUsers st senderId receiverId =
     first_row (filter (connects senderId receiverId) (userMatches st))"

text \<open>\<open>update ... where id = ... returning\<close>; \<open>None\<close> is the \<open>undefined\<close> of an update
  that touched no row.\<close>

definition Db_updateUserMatchStatus ::
  "nat \<Rightarrow> int \<Rightarrow> string \<Rightarrow> DatabaseStorage \<Rightarrow> UserMatch option \<times> DatabaseStorage" where
  "Db_updateUserMatchStatus now matchId status st =
     (let rows = map (\<lambda>m. if um_id m = matchId
                            then m\<lparr>um_status := status, um_updatedAt := now\<rparr> else m)
                     (userMatches st)
      in (first_row (filter (\<lambda>m. um_id m = matchId) rows), st\<lparr>userMatches := rows\<rparr>))"


subsection \<open>Messages\<close>

record InsertMessage =
  im_senderId :: int
  im_receiverId :: int
  im_content :: string



definition Db_createMessage ::
  "nat \<Rightarrow> InsertMessage \<Rightarrow> DatabaseStorage \<Rightarrow> Message \<times> DatabaseStorage" where
  "Db_createMessage now messageData st =
     (let message = \<lparr>msg_id = messages_id_seq st, msg_senderId = im_senderId messageData,
                     msg_receiverId = im_receiverId messageData,
                     msg_content = im_content messageData, msg_read = False,
                     msg_createdAt = now\<rparr>
      in (message, st\<lparr>messages_id_seq := messages_id_seq st + 1,
                      messages := messages st @ [message]\<rparr>))"


section \<open>The route handlers of \<open>routes.ts\<close>\<close>

text \<open>
  The handlers run on the exported \<open>storage\<close>, a \<open>DatabaseStorage\<close>. A handler takes the
  clock, the authenticated user's id (\<open>None\<close> when \<open>req.isAuthenticated()\<close> is false),
  the parsed request and the storage, and returns the response with the new storage. An
  error response carries its status (400, 401, 403, 404) and its message.
\<close>

datatype http_error =
  BadRequest string | Unauthorized string | Forbidden string | NotFound string


text \<open>\<open>PUT /api/user-matches/:id\<close>, with the parsed \<open>:id\<close> and the body's \<open>status\<close>.\<close>

definition put_user_matches ::
  "nat \<Rightarrow> int option \<Rightarrow> int \<Rightarrow> string option \<Rightarrow> DatabaseStorage
     \<Rightarrow> (http_error + UserMatch option) \<times> DatabaseStorage" where
  "put_user_matches now auth matchId status st =
     (case auth of
        None \<Rightarrow> (Inl (Unauthorized ''Authentication required''), st)
      | Some userId \<Rightarrow>
          (case status of
             None \<Rightarrow> (Inl (BadRequest ''Valid status required (accepted or rejected)''), st)
           | Some status' \<Rightarrow>
               if status' \<notin> set [''accepted'', ''rejected'']
               then (Inl (BadRequest ''Valid status required (accepted or rejected)''), st)
               else (case Db_getUserMatch st matchId of
                       None \<Rightarrow> (Inl (NotFound ''Match not found''), st)
                     | Some m \<Rightarrow>
                         if um_receiverId m \<noteq> userId
                         then (Inl (Forbidden ''You can only respond to matches sent to you''), st)
                         else (let (updatedMatch, st') =
                                     Db_updateUserMatchStatus now matchId status' st
                               in (Inr updatedMatch, st')))))"



text \<open>\<open>POST /api/messages\<close>.\<close>

definition post_messages ::
  "nat \<Rightarrow> int option \<Rightarrow> InsertMessage option \<Rightarrow> DatabaseStorage
     \<Rightarrow> (http_error + Message) \<times> DatabaseStorage" where
  "post_messages now auth body st =
     (case auth of
        None \<Rightarrow> (Inl (Unauthorized ''Authentication required''), st)
      | Some userId \<Rightarrow>
          (case body of
             None \<Rightarrow> (Inl (BadRequest ''Invalid message data''), st)
           | Some messageData \<Rightarrow>
               if im_senderId messageData \<noteq> userId
               then (Inl (Forbidden ''You can only send messages as yourself''), st)
               else (case Db_getUser st (im_receiverId messageData) of
                       None \<Rightarrow> (Inl (NotFound ''Recipient not found''), st)
                     | Some receiver \<Rightarrow>
                         (case Db_getUserMatchByUsers st (im_senderId messageData)
                                 (im_receiverId messageData) of
                            None \<Rightarrow>
                              (Inl (Forbidden ''You can only message users you've matched with''), st)
                          | Some m \<Rightarrow>
                              if um_status m \<noteq> ''accepted''
                              then (Inl (Forbidden ''You can only message users you've matched with''), st)
                              else (let (message, st') = Db_createMessage now messageData st
                                    in (Inr message, st'))))))"

section \<open>Concrete data\<close>

text \<open>Profiles, gyms, storages and \<open>Math.random\<close> streams for the closed statements below.\<close>

definition draws_low :: "nat \<Rightarrow> real" where
  "draws_low i = 0"

definition draws_small :: "nat \<Rightarrow> real" where
  "draws_small i = 1 / 30"

definition draws_mid :: "nat \<Rightarrow> real" where
  "draws_mid i = 1 / 2"

definition plain_user :: User where
  "plain_user = \<lparr>user_id = 1, username = ''sam'', fitnessGoals = Some [],
     gymPreferences = Some []\<rparr>"

definition stretch_user :: User where
  "stretch_user = \<lparr>user_id = 2, username = ''kim'', fitnessGoals = Some [''Flexibility''],
     gymPreferences = Some [''Sauna'']\<rparr>"

definition proto_user :: User where
  "proto_user = \<lparr>user_id = 3, username = ''lee'', fitnessGoals = Some [''constructor''],
     gymPreferences = Some []\<rparr>"

definition sauna_gym :: Gym where
  "sauna_gym = \<lparr>gym_id = 1, gym_name = ''City Fitness Club'', amenities = Some [''Sauna'']\<rparr>"

definition one_gym_mem :: MemStorage where
  "one_gym_mem = \<lparr>userStore = [(1, plain_user), (2, stretch_user)], gymStore = [(1, sauna_gym)],
     savedGymStore = [], userMatchStore = [], messageStore = [],
     savedGymIdCounter = 1, userMatchIdCounter = 1, messageIdCounter = 1\<rparr>"

definition one_gym_db :: DatabaseStorage where
  "one_gym_db = \<lparr>users = [plain_user, stretch_user, proto_user], gyms = [sauna_gym],
     savedGyms = [], userMatches = [], messages = [],
     savedGyms_id_seq = 1, userMatches_id_seq = 1, messages_id_seq = 1\<rparr>"

definition accepted_1_2 :: UserMatch where
  "accepted_1_2 = \<lparr>um_id = 1, um_senderId = 1, um_receiverId = 2, um_status = ''accepted'',
     um_matchScore = None, um_createdAt = 0, um_updatedAt = 1\<rparr>"

definition pending_1_3 :: UserMatch where
  "pending_1_3 = \<lparr>um_id = 2, um_senderId = 1, um_receiverId = 3, um_status = ''pending'',
     um_matchScore = None, um_createdAt = 2, um_updatedAt = 2\<rparr>"

definition chat_db :: DatabaseStorage where
  "chat_db = \<lparr>users = [plain_user, stretch_user, proto_user], gyms = [sauna_gym],
     savedGyms = [], userMatches = [accepted_1_2, pending_1_3], messages = [],
     savedGyms_id_seq = 1, userMatches_id_seq = 3, messages_id_seq = 1\<rparr>"

definition saved_1_1 :: SavedGym where
  "saved_1_1 = \<lparr>sg_id = 1, sg_userId = 1, sg_gymId = 1, sg_matchScore = Some 85,
     sg_savedAt = 0\<rparr>"

definition saved_mem :: MemStorage where
  "saved_mem = \<lparr>userStore = [(1, plain_user)], gymStore = [(1, sauna_gym)],
     savedGymStore = [((1, 1), saved_1_1)], userMatchStore = [], messageStore = [],
     savedGymIdCounter = 2, userMatchIdCounter = 1, messageIdCounter = 1\<rparr>"

section \<open>Properties of the scorers\<close>

subsection \<open>The in-memory scorer\<close>

lemma goal_dimension_mono:
  "matchScore acc \<le> matchScore (goal_dimension user gym acc) \<and>
   matchingFactors acc \<le> matchingFactors (goal_dimension user gym acc)"
  by (auto simp: goal_dimension_def Let_def split: option.splits)

lemma preference_dimension_mono:
  "matchScore acc \<le> matchScore (preference_dimension user gym acc) \<and>
   matchingFactors acc \<le> matchingFactors (preference_dimension user gym acc)"
  by (auto simp: preference_dimension_def Let_def split: option.splits)

lemma factor_adjustment_mono:
  "0 \<le> matchingFactors acc \<Longrightarrow> matchScore acc \<le> matchScore (factor_adjustment acc)"
  by (simp add: factor_adjustment_def)

lemma mem_matchScore_bounds: "70 \<le> mem_matchScore user gym \<and> mem_matchScore user gym \<le> 100"
proof -
  let ?a1 = "goal_dimension user gym initial_acc"
  let ?a2 = "preference_dimension user gym ?a1"
  have s1: "70 \<le> matchScore ?a1" and f1: "0 \<le> matchingFactors ?a1"
    using goal_dimension_mono [of initial_acc user gym] by (simp_all add: initial_acc_def)
  have s2: "70 \<le> matchScore ?a2" and f2: "0 \<le> matchingFactors ?a2"
    using preference_dimension_mono [of ?a1 user gym] s1 f1 by linarith+
  have "70 \<le> matchScore (factor_adjustment ?a2)"
    using factor_adjustment_mono [OF f2] s2 by linarith
  then have "round (70::real) \<le> round (matchScore (factor_adjustment ?a2))"
    by (rule round_mono)
  then show ?thesis by (simp add: mem_matchScore_def)
qed

lemma mem_matchScore_empty:
  "fitnessGoals user = Some [] \<Longrightarrow> gymPreferences user = Some [] \<Longrightarrow>
     mem_matchScore user gym = 70"
  by (simp add: mem_matchScore_def goal_dimension_def preference_dimension_def
      factor_adjustment_def initial_acc_def split: option.splits)

lemma set_by_score_desc: "set (by_score_desc rows) = set rows"
  by (simp add: by_score_desc_def)


subsection \<open>The database scorer\<close>

lemma db_boost_ge: "score \<le> db_boost related gymAmenities score"
  unfolding db_boost_def
proof (induction related arbitrary: score)
  case Nil
  show ?case by simp
next
  case (Cons a related)
  show ?case using Cons [of "score + 2"] Cons [of score] by auto
qed

lemma db_goals_loop_ge: "db_goals_loop goals gymAmenities score = Inr s \<Longrightarrow> score \<le> s"
proof (induction goals arbitrary: score)
  case Nil
  then show ?case by simp
next
  case (Cons goal goals)
  show ?case
  proof (cases "db_lookup goal")
    case (Own related)
    with Cons.prems
    have "db_goals_loop goals gymAmenities (db_boost related gymAmenities score) = Inr s"
      by simp
    then have "db_boost related gymAmenities score \<le> s" by (rule Cons.IH)
    with db_boost_ge [of score related gymAmenities] show ?thesis by linarith
  next
    case Inherited
    with Cons.prems show ?thesis by simp
  next
    case Undefined
    with Cons.prems Cons.IH show ?thesis by simp
  qed
qed

lemma db_goals_loop_error:
  "db_goals_loop goals gymAmenities score = Inl e \<longleftrightarrow>
     e = TypeError \<and> (\<exists>goal\<in>set goals. db_lookup goal = Inherited)"
  by (induction goals arbitrary: score) (auto split: property.splits)

lemma db_matchScore_bounds:
  assumes "0 \<le> r" "db_matchScore r user gym = Inr s"
  shows "75 \<le> s \<and> s \<le> 100"
proof -
  have "(0::int) \<le> \<lfloor>r * 15\<rfloor>" using assms(1) by simp
  then have base: "\<lfloor>r * 15\<rfloor> + 75 \<ge> (75::int)" by linarith
  show ?thesis
  proof (cases "fitnessGoals user")
    case None
    with assms(2) base show ?thesis by (auto simp: db_matchScore_def Let_def)
  next
    case (Some goals)
    show ?thesis
    proof (cases "amenities gym")
      case None
      with Some assms(2) base show ?thesis by (auto simp: db_matchScore_def Let_def)
    next
      case (Some gymAmenities)
      with \<open>fitnessGoals user = Some goals\<close> assms(2)
      obtain s' where l: "db_goals_loop goals gymAmenities (\<lfloor>r * 15\<rfloor> + 75) = Inr s'"
        and s: "s = min s' 100"
        by (auto simp: db_matchScore_def Let_def split: sum.splits)
      from db_goals_loop_ge [OF l] base have "75 \<le> s'" by linarith
      with s show ?thesis by simp
    qed
  qed
qed

lemma db_matchScore_error:
  "db_matchScore r user gym = Inl e \<longleftrightarrow>
     e = TypeError \<and>
     (\<exists>goals gymAmenities. fitnessGoals user = Some goals \<and> amenities gym = Some gymAmenities \<and>
        (\<exists>goal\<in>set goals. db_lookup goal = Inherited))"
proof (cases "fitnessGoals user")
  case None
  then show ?thesis by (simp add: db_matchScore_def Let_def)
next
  case goals: (Some goals)
  show ?thesis
  proof (cases "amenities gym")
    case None
    with goals show ?thesis by (simp add: db_matchScore_def Let_def)
  next
    case (Some gymAmenities)
    have "db_matchScore r user gym = Inl e \<longleftrightarrow>
          db_goals_loop goals gymAmenities (\<lfloor>r * 15\<rfloor> + 75) = Inl e"
      using goals Some by (auto simp: db_matchScore_def Let_def split: sum.splits)
    with goals Some show ?thesis by (simp add: db_goals_loop_error)
  qed
qed

lemma db_matchScore_floor:
  "\<lfloor>r * 15\<rfloor> = \<lfloor>r' * 15\<rfloor> \<Longrightarrow> db_matchScore r user gym = db_matchScore r' user gym"
  by (simp add: db_matchScore_def)

lemma db_score_gyms_floor:
  "(\<And>j. j < length rows \<Longrightarrow> \<lfloor>random (i + j) * 15\<rfloor> = \<lfloor>random' (i + j) * 15\<rfloor>) \<Longrightarrow>
     db_score_gyms random i user rows = db_score_gyms random' i user rows"
proof (induction rows arbitrary: i)
  case Nil
  show ?case by simp
next
  case (Cons gym rows)
  have head: "db_matchScore (random i) user gym = db_matchScore (random' i) user gym"
    using Cons.prems [of 0] by (intro db_matchScore_floor) simp
  have tail: "db_score_gyms random (i + 1) user rows = db_score_gyms random' (i + 1) user rows"
  proof (rule Cons.IH)
    fix j assume "j < length rows"
    then show "\<lfloor>random (i + 1 + j) * 15\<rfloor> = \<lfloor>random' (i + 1 + j) * 15\<rfloor>"
      using Cons.prems [of "Suc j"] by simp
  qed
  show ?case unfolding db_score_gyms.simps head tail by (rule refl)
qed

lemma db_boost_shift: "db_boost related gymAmenities (a + d) = db_boost related gymAmenities a + d"
  unfolding db_boost_def
proof (induction related arbitrary: a)
  case Nil
  show ?case by simp
next
  case (Cons x related)
  show ?case using Cons [of "a + 2"] Cons [of a] by (simp add: ac_simps)
qed

lemma db_goals_loop_shift:
  "db_goals_loop goals gymAmenities a = Inr s \<Longrightarrow> db_goals_loop goals gymAmenities (a + d) = Inr (s + d)"
proof (induction goals arbitrary: a)
  case Nil
  then show ?case by simp
next
  case (Cons goal goals)
  show ?case
  proof (cases "db_lookup goal")
    case (Own related)
    with Cons.prems have "db_goals_loop goals gymAmenities (db_boost related gymAmenities a) = Inr s"
      by simp
    from Cons.IH [OF this] Own show ?thesis by (simp add: db_boost_shift)
  next
    case Inherited
    with Cons.prems show ?thesis by simp
  next
    case Undefined
    with Cons.prems Cons.IH show ?thesis by simp
  qed
qed

lemma min_shift_spread:
  fixes t k k' :: int
  assumes "0 \<le> k" "k \<le> 14" "0 \<le> k'" "k' \<le> 14"
  shows "\<bar>min (t + k) 100 - min (t + k') 100\<bar> \<le> 14"
  using assms by linarith

lemma floor_draw: "0 \<le> r \<Longrightarrow> r < 1 \<Longrightarrow> 0 \<le> \<lfloor>r * 15\<rfloor> \<and> \<lfloor>r * 15\<rfloor> \<le> 14" for r :: real
  by (simp add: floor_le_iff)

lemma db_matchScore_shape:
  "db_matchScore r user gym = Inr s \<Longrightarrow> \<exists>t. \<forall>r'. db_matchScore r' user gym = Inr (min (t + \<lfloor>r' * 15\<rfloor>) 100)"
proof (cases "\<exists>goals gymAmenities. fitnessGoals user = Some goals \<and> amenities gym = Some gymAmenities")
  case True
  assume s: "db_matchScore r user gym = Inr s"
  from True obtain goals gymAmenities where g: "fitnessGoals user = Some goals"
    and a: "amenities gym = Some gymAmenities" by blast
  from s g a obtain t where t: "db_goals_loop goals gymAmenities (\<lfloor>r * 15\<rfloor> + 75) = Inr t"
    by (auto simp: db_matchScore_def Let_def split: sum.splits)
  have "db_matchScore r' user gym = Inr (min (t - \<lfloor>r * 15\<rfloor> + \<lfloor>r' * 15\<rfloor>) 100)" for r'
  proof -
    from db_goals_loop_shift [OF t, of "\<lfloor>r' * 15\<rfloor> - \<lfloor>r * 15\<rfloor>"]
    have "db_goals_loop goals gymAmenities (\<lfloor>r' * 15\<rfloor> + 75) = Inr (t - \<lfloor>r * 15\<rfloor> + \<lfloor>r' * 15\<rfloor>)"
      by (simp add: algebra_simps)
    with g a show ?thesis by (simp add: db_matchScore_def Let_def)
  qed
  then show ?thesis by blast
next
  case False
  then have "db_matchScore r' user gym = Inr (min (75 + \<lfloor>r' * 15\<rfloor>) 100)" for r'
    by (auto simp: db_matchScore_def Let_def add.commute split: option.splits)
  then show ?thesis by blast
qed

lemma db_matchScore_spread:
  fixes r r' :: real
  assumes r: "0 \<le> r" "r < 1" and r': "0 \<le> r'" "r' < 1"
    and s: "db_matchScore r user gym = Inr s" and s': "db_matchScore r' user gym = Inr s'"
  shows "\<bar>s - s'\<bar> \<le> 14"
proof -
  from db_matchScore_shape [OF s] obtain t
    where t: "\<And>x. db_matchScore x user gym = Inr (min (t + \<lfloor>x * 15\<rfloor>) 100)" by blast
  from t [of r] s have 1: "s = min (t + \<lfloor>r * 15\<rfloor>) 100" by simp
  from t [of r'] s' have 2: "s' = min (t + \<lfloor>r' * 15\<rfloor>) 100" by simp
  from floor_draw [OF r] floor_draw [OF r'] show ?thesis
    unfolding 1 2 by (intro min_shift_spread) simp_all
qed

subsection \<open>Scores in the returned lists, and the concrete data\<close>

lemma Mem_getMatchesForUser_scores:
  "row \<in> set (Mem_getMatchesForUser mst userId) \<Longrightarrow>
     \<exists>user gym. Mem_getUser mst userId = Some user \<and> snd row = mem_matchScore user gym"
proof (cases "Mem_getUser mst userId")
  case None
  assume "row \<in> set (Mem_getMatchesForUser mst userId)"
  with None show ?thesis by (simp add: Mem_getMatchesForUser_def)
next
  case (Some user)
  assume "row \<in> set (Mem_getMatchesForUser mst userId)"
  with Some obtain gym where "row = (gym, mem_matchScore user gym)"
    by (auto simp: Mem_getMatchesForUser_def set_by_score_desc)
  with Some show ?thesis by auto
qed

lemma db_score_gyms_scores:
  "db_score_gyms draws i user rows = Inr scored \<Longrightarrow> row \<in> set scored \<Longrightarrow>
     \<exists>j gym. db_matchScore (draws j) user gym = Inr (snd row)"
proof (induction rows arbitrary: i scored)
  case Nil
  then show ?case by simp
next
  case (Cons gym rows)
  from Cons.prems(1) obtain s rest where s: "db_matchScore (draws i) user gym = Inr s"
    and rest: "db_score_gyms draws (i + 1) user rows = Inr rest"
    and scored: "scored = (gym, s) # rest"
    by (auto split: sum.splits)
  show ?case
  proof (cases "row = (gym, s)")
    case True
    with s show ?thesis by auto
  next
    case False
    with Cons.prems(2) scored have "row \<in> set rest" by simp
    from Cons.IH [OF rest this] show ?thesis .
  qed
qed

lemma Db_getMatchesForUser_scores:
  "Db_getMatchesForUser draws st userId = Inr scored \<Longrightarrow> row \<in> set scored \<Longrightarrow>
     \<exists>j user gym. db_matchScore (draws j) user gym = Inr (snd row)"
proof -
  assume res: "Db_getMatchesForUser draws st userId = Inr scored" and row: "row \<in> set scored"
  show ?thesis
  proof (cases "Db_getUser st userId")
    case None
    with res row show ?thesis by (simp add: Db_getMatchesForUser_def)
  next
    case (Some user)
    with res obtain unsorted where u: "db_score_gyms draws 0 user (Db_getAllGyms st) = Inr unsorted"
      and "scored = by_score_desc unsorted"
      by (auto simp: Db_getMatchesForUser_def split: sum.splits)
    with row have "row \<in> set unsorted" by (simp add: set_by_score_desc)
    from db_score_gyms_scores [OF u this] show ?thesis by blast
  qed
qed





lemma one_gym_db_plain: "Db_getUser one_gym_db 1 = Some plain_user"
  by (simp add: Db_getUser_def one_gym_db_def plain_user_def stretch_user_def proto_user_def)

lemma gyms_one_gym_db: "gyms one_gym_db = [sauna_gym]"
  by (simp add: one_gym_db_def)

lemma db_plain_low: "db_matchScore 0 plain_user sauna_gym = Inr 75"
  by (simp add: db_matchScore_def plain_user_def sauna_gym_def)

lemma db_plain_mid: "db_matchScore (1 / 2) plain_user sauna_gym = Inr 82"
  by (simp add: db_matchScore_def plain_user_def sauna_gym_def)

lemma one_gym_mem_plain: "Mem_getUser one_gym_mem 1 = Some plain_user"
  by (simp add: Mem_getUser_def one_gym_mem_def)

lemma one_gym_mem_rows:
  "Mem_getMatchesForUser one_gym_mem 1 = [(sauna_gym, mem_matchScore plain_user sauna_gym)]"
  by (simp add: Mem_getMatchesForUser_def one_gym_mem_plain Mem_getAllGyms_def by_score_desc_def)
    (simp add: one_gym_mem_def)

lemma plain_user_lists: "fitnessGoals plain_user = Some []" "gymPreferences plain_user = Some []"
  by (simp_all add: plain_user_def)


lemma db_lookup_Inherited:
  "db_lookup goal = Inherited \<Longrightarrow> goal \<in> set Object_prototype_names"
  by (auto simp: db_lookup_def split: option.splits if_splits)

lemma db_score_gyms_bounds:
  assumes "\<forall>i. 0 \<le> draws i" and "db_score_gyms draws i user rows = Inr scored"
    and "row \<in> set scored"
  shows "75 \<le> snd row \<and> snd row \<le> 100"
proof -
  from db_score_gyms_scores [OF assms(2,3)] obtain j gym
    where "db_matchScore (draws j) user gym = Inr (snd row)" by blast
  with assms(1) db_matchScore_bounds [of "draws j" user gym "snd row"] show ?thesis by simp
qed

section \<open>Claims about the scorers\<close>

text \<open>
  C1, as stated: two invocations of \<open>getMatchesForUser\<close> on identical inputs and
  identical stored state return identical scores for every gym. This fails for
  \<open>DatabaseStorage.getMatchesForUser\<close>, whose callback starts from
  \<open>Math.floor(Math.random() * 15) + 75\<close>: on the same storage and the same user, a draw
  of 0 scores the gym 75 and a draw of 0.5 scores it 82.
\<close>

theorem c1_counterexample:
  "Db_getMatchesForUser draws_low one_gym_db 1 = Inr [(sauna_gym, 75)] \<and>
   Db_getMatchesForUser draws_mid one_gym_db 1 = Inr [(sauna_gym, 82)] \<and>
   Db_getMatchesForUser draws_low one_gym_db 1 \<noteq> Db_getMatchesForUser draws_mid one_gym_db 1"
  by (simp add: Db_getMatchesForUser_def one_gym_db_plain Db_getAllGyms_def
      draws_low_def draws_mid_def db_plain_low db_plain_mid by_score_desc_def gyms_one_gym_db)

text \<open>
  C1, amended: \<open>MemStorage.getMatchesForUser\<close> consults no random source (its model
  takes none), and \<open>DatabaseStorage.getMatchesForUser\<close> is deterministic up to its
  draws: two invocations on the same storage and user return the same result whenever
  \<open>Math.floor(Math.random() * 15)\<close> agrees for each gym, and with different draws the
  two scores of a gym differ by at most 14.
\<close>

theorem c1_scores_agree_when_draws_agree:
  "((\<forall>i<length (gyms st). \<lfloor>draws i * 15\<rfloor> = \<lfloor>draws' i * 15\<rfloor>) \<longrightarrow>
      Db_getMatchesForUser draws st userId = Db_getMatchesForUser draws' st userId) \<and>
   (0 \<le> r \<and> r < 1 \<and> 0 \<le> r' \<and> r' < 1 \<and>
      db_matchScore r user gym = Inr s \<and> db_matchScore r' user gym = Inr s' \<longrightarrow>
      \<bar>s - s'\<bar> \<le> 14)"
proof (intro conjI impI)
  assume "\<forall>i<length (gyms st). \<lfloor>draws i * 15\<rfloor> = \<lfloor>draws' i * 15\<rfloor>"
  then have "db_score_gyms draws 0 user (Db_getAllGyms st) =
             db_score_gyms draws' 0 user (Db_getAllGyms st)" for user
    by (intro db_score_gyms_floor) (simp add: Db_getAllGyms_def)
  then show "Db_getMatchesForUser draws st userId = Db_getMatchesForUser draws' st userId"
    by (simp add: Db_getMatchesForUser_def split: option.splits)
next
  assume "0 \<le> r \<and> r < 1 \<and> 0 \<le> r' \<and> r' < 1 \<and>
      db_matchScore r user gym = Inr s \<and> db_matchScore r' user gym = Inr s'"
  then show "\<bar>s - s'\<bar> \<le> 14"
    using db_matchScore_spread [of r r' user gym s s'] by blast
qed

theorem c1_scores_agree_when_draws_agree_witness:
  "Db_getMatchesForUser draws_low one_gym_db 1 = Db_getMatchesForUser draws_small one_gym_db 1 \<and>
   \<bar>(75::int) - 82\<bar> \<le> 14"
proof -
  have floors: "\<forall>i<length (gyms one_gym_db). \<lfloor>draws_low i * 15\<rfloor> = \<lfloor>draws_small i * 15\<rfloor>"
    by (simp add: draws_low_def draws_small_def)
  have range: "(0::real) \<le> 0 \<and> (0::real) < 1 \<and> (0::real) \<le> 1 / 2 \<and> (1 / 2 :: real) < 1"
    by simp
  from c1_scores_agree_when_draws_agree
    [where st = one_gym_db and draws = draws_low and draws' = draws_small and r = 0
       and r' = "1 / 2" and user = plain_user and gym = sauna_gym and s = 75 and s' = 82
       and userId = 1]
    floors range db_plain_low db_plain_mid
  show ?thesis by blast
qed

text \<open>
  C2, as stated: for a profile whose goal list and preference list are empty, the scorer
  returns exactly 70 for every gym. \<open>MemStorage\<close> does; \<open>DatabaseStorage\<close> returns
  its random base, which is never below 75.
\<close>

theorem c2_counterexample:
  "fitnessGoals plain_user = Some [] \<and> gymPreferences plain_user = Some [] \<and>
   db_matchScore 0 plain_user sauna_gym = Inr 75 \<and>
   db_matchScore 0 plain_user sauna_gym \<noteq> Inr 70 \<and>
   Db_getMatchesForUser draws_mid one_gym_db 1 = Inr [(sauna_gym, 82)]"
  by (simp add: plain_user_lists db_plain_low Db_getMatchesForUser_def one_gym_db_plain
      Db_getAllGyms_def draws_mid_def db_plain_mid by_score_desc_def gyms_one_gym_db)

text \<open>
  C2, amended: for a profile whose goal list and preference list are empty, and every
  gym, the \<open>MemStorage\<close> scorer returns exactly 70 (no bonus, no factor adjustment), for
  the callback and for every row of \<open>getMatchesForUser\<close>; the \<open>DatabaseStorage\<close>
  scorer returns \<open>Math.floor(Math.random() * 15) + 75\<close>, a score from 75 to 89.
\<close>

theorem c2_empty_profile_scores:
  assumes "fitnessGoals user = Some []" and "gymPreferences user = Some []"
  shows "mem_matchScore user gym = 70 \<and>
         (Mem_getUser mst userId = Some user \<longrightarrow>
            (\<forall>row\<in>set (Mem_getMatchesForUser mst userId). snd row = 70)) \<and>
         (0 \<le> random \<and> random < 1 \<longrightarrow>
            db_matchScore random user gym = Inr (\<lfloor>random * 15\<rfloor> + 75) \<and>
            75 \<le> \<lfloor>random * 15\<rfloor> + 75 \<and> \<lfloor>random * 15\<rfloor> + 75 \<le> 89)"
proof (intro conjI impI ballI)
  show "mem_matchScore user gym = 70"
    using assms by (rule mem_matchScore_empty)
next
  fix row
  assume "Mem_getUser mst userId = Some user" and "row \<in> set (Mem_getMatchesForUser mst userId)"
  with Mem_getMatchesForUser_scores [of row mst userId]
  obtain gym' where "snd row = mem_matchScore user gym'" by auto
  with assms show "snd row = 70" by (simp add: mem_matchScore_empty)
next
  assume r: "0 \<le> random \<and> random < 1"
  with floor_draw [of random] have k: "0 \<le> \<lfloor>random * 15\<rfloor>" "\<lfloor>random * 15\<rfloor> \<le> 14" by simp_all
  then show "75 \<le> \<lfloor>random * 15\<rfloor> + 75" "\<lfloor>random * 15\<rfloor> + 75 \<le> 89" by linarith+
  from k have "min (\<lfloor>random * 15\<rfloor> + 75) 100 = \<lfloor>random * 15\<rfloor> + 75" by linarith
  with assms(1) show "db_matchScore random user gym = Inr (\<lfloor>random * 15\<rfloor> + 75)"
    by (simp add: db_matchScore_def Let_def split: option.splits)
qed

theorem c2_empty_profile_scores_witness:
  "mem_matchScore plain_user sauna_gym = 70 \<and>
   Mem_getMatchesForUser one_gym_mem 1 = [(sauna_gym, 70)] \<and>
   db_matchScore (1 / 2) plain_user sauna_gym = Inr 82"
proof -
  have range: "(0::real) \<le> 1 / 2 \<and> (1 / 2 :: real) < 1" by simp
  from c2_empty_profile_scores [OF plain_user_lists, where gym = sauna_gym
      and mst = one_gym_mem and userId = 1 and random = "1 / 2"] one_gym_mem_plain range
  show ?thesis by (simp add: one_gym_mem_rows)
qed




text \<open>
  C8: for every profile and gym the scorer returns an integer score between 0 and 100.
  \<open>MemStorage\<close> does (\<open>mem_matchScore_bounds\<close>), and every score that
  \<open>DatabaseStorage\<close> returns is between 75 and 100 (\<open>db_matchScore_bounds\<close>). But for a
  profile with the goal \<open>constructor\<close> (or any other name inherited from
  \<open>Object.prototype\<close>) and a gym whose amenity array is not null,
  \<open>DatabaseStorage.getMatchesForUser\<close> returns no score: it throws a TypeError.
\<close>

theorem c8_inherited_goal_name_throws:
  "Db_getUser one_gym_db 3 = Some proto_user \<and>
   db_matchScore 0 proto_user sauna_gym = Inl TypeError \<and>
   Db_getMatchesForUser draws_low one_gym_db 3 = Inl TypeError"
  by (simp add: Db_getMatchesForUser_def Db_getUser_def one_gym_db_def plain_user_def
      stretch_user_def proto_user_def Db_getAllGyms_def draws_low_def db_matchScore_def
      sauna_gym_def db_lookup_def db_goalToAmenity_def Object_prototype_names_def)

text \<open>
  C10: no gym is ever scored below 70. The \<open>MemStorage\<close> scorer starts from 70 and only
  adds non-negative amounts before rounding and capping at 100; the \<open>DatabaseStorage\<close>
  scorer starts from at least 75 (the draw is not negative) and only adds. So every score
  of the \<open>MemStorage\<close> callback and every row of its \<open>getMatchesForUser\<close> is at least
  70, and so is every score that the \<open>DatabaseStorage\<close> callback or its
  \<open>getMatchesForUser\<close> returns; the \<open>DatabaseStorage\<close> callback returns a score
  whenever no goal is a name inherited from \<open>Object.prototype\<close>.
\<close>

theorem c10_score_at_least_70:
  "70 \<le> mem_matchScore user gym \<and>
   (\<forall>row\<in>set (Mem_getMatchesForUser mst userId). 70 \<le> snd row) \<and>
   (0 \<le> random \<longrightarrow> (\<forall>s. db_matchScore random user gym = Inr s \<longrightarrow> 70 \<le> s)) \<and>
   ((\<forall>i. 0 \<le> draws i) \<longrightarrow>
      (\<forall>scored. Db_getMatchesForUser draws st userId = Inr scored \<longrightarrow>
         (\<forall>row\<in>set scored. 70 \<le> snd row))) \<and>
   ((\<forall>goals. fitnessGoals user = Some goals \<longrightarrow>
        (\<forall>goal\<in>set goals. goal \<notin> set Object_prototype_names)) \<longrightarrow>
      (\<exists>s. db_matchScore random user gym = Inr s))"
proof (intro conjI impI allI ballI)
  show "70 \<le> mem_matchScore user gym"
    using mem_matchScore_bounds by simp
next
  fix row assume "row \<in> set (Mem_getMatchesForUser mst userId)"
  from Mem_getMatchesForUser_scores [OF this] mem_matchScore_bounds
  show "70 \<le> snd row" by auto
next
  fix s assume "0 \<le> random" and "db_matchScore random user gym = Inr s"
  from db_matchScore_bounds [OF this] show "70 \<le> s" by simp
next
  fix scored row
  assume d: "\<forall>i. 0 \<le> draws i" and r: "Db_getMatchesForUser draws st userId = Inr scored"
    and row: "row \<in> set scored"
  from Db_getMatchesForUser_scores [OF r row] obtain j user' gym'
    where "db_matchScore (draws j) user' gym' = Inr (snd row)" by blast
  with d db_matchScore_bounds [of "draws j" user' gym' "snd row"] show "70 \<le> snd row" by simp
next
  assume clean: "\<forall>goals. fitnessGoals user = Some goals \<longrightarrow>
        (\<forall>goal\<in>set goals. goal \<notin> set Object_prototype_names)"
  show "\<exists>s. db_matchScore random user gym = Inr s"
  proof (cases "db_matchScore random user gym")
    case (Inl e)
    then obtain goals goal where "fitnessGoals user = Some goals" "goal \<in> set goals"
      "db_lookup goal = Inherited"
      by (auto simp: db_matchScore_error)
    with clean db_lookup_Inherited show ?thesis by blast
  next
    case (Inr s)
    then show ?thesis by blast
  qed
qed

theorem c10_score_at_least_70_witness:
  "70 \<le> mem_matchScore stretch_user sauna_gym \<and>
   Mem_getMatchesForUser one_gym_mem 1 = [(sauna_gym, mem_matchScore plain_user sauna_gym)] \<and>
   70 \<le> mem_matchScore plain_user sauna_gym \<and>
   Db_getMatchesForUser draws_mid one_gym_db 1 = Inr [(sauna_gym, 82)] \<and>
   (\<exists>s. db_matchScore (1 / 2) plain_user sauna_gym = Inr s \<and> 70 \<le> s)"
proof -
  have draws: "\<forall>i. 0 \<le> draws_mid i" by (simp add: draws_mid_def)
  have clean: "\<forall>goals. fitnessGoals plain_user = Some goals \<longrightarrow>
        (\<forall>goal\<in>set goals. goal \<notin> set Object_prototype_names)"
    by (simp add: plain_user_def)
  have mid: "Db_getMatchesForUser draws_mid one_gym_db 1 = Inr [(sauna_gym, 82)]"
    by (simp add: Db_getMatchesForUser_def one_gym_db_plain Db_getAllGyms_def draws_mid_def
        db_plain_mid by_score_desc_def gyms_one_gym_db)
  have pos: "(0::real) \<le> 1 / 2" by simp
  from c10_score_at_least_70 [where user = plain_user and gym = sauna_gym
      and mst = one_gym_mem and userId = 1 and random = "1 / 2" and draws = draws_mid
      and st = one_gym_db] c10_score_at_least_70 [where user = stretch_user and gym = sauna_gym]
    draws clean mid pos
  show ?thesis by (simp add: one_gym_mem_rows) blast
qed

section \<open>Properties of the storages and the routes\<close>


lemma first_row_filter_Some:
  "first_row (filter P rows) = Some r \<Longrightarrow> r \<in> set rows \<and> P r"
proof -
  assume "first_row (filter P rows) = Some r"
  then obtain rest where "filter P rows = r # rest"
    by (auto simp: first_row_def split: list.splits)
  then have "r \<in> set (filter P rows)" by simp
  then show ?thesis by simp
qed








lemma Db_lookup_not_accepted:
  assumes "\<forall>m\<in>set (userMatches st). connects S R m \<longrightarrow> um_status m \<noteq> ''accepted''"
  shows "Db_getUserMatchByUsers st S R = None \<or>
         (\<exists>m. Db_getUserMatchByUsers st S R = Some m \<and> um_status m \<noteq> ''accepted'')"
proof (cases "Db_getUserMatchByUsers st S R")
  case None
  then show ?thesis by simp
next
  case (Some m)
  then have "m \<in> set (userMatches st) \<and> connects S R m"
    unfolding Db_getUserMatchByUsers_def by (rule first_row_filter_Some)
  with assms Some show ?thesis by simp
qed



subsection \<open>Saving a gym\<close>

lemma length_update_present:
  "k \<in> fst ` set al \<Longrightarrow> length (AList.update k v al) = length al"
  by (induction al) auto

lemma Mem_saveGym_truthy:
  assumes "Mem_getSavedGym st userId gymId = Some existing" and "score \<noteq> 0"
  shows "\<exists>st'. Mem_saveGym now \<lparr>isg_userId = userId, isg_gymId = gymId,
                   isg_matchScore = Some score\<rparr> st
                 = (existing\<lparr>sg_matchScore := Some score\<rparr>, st') \<and>
               Mem_getSavedGym st' userId gymId = Some (existing\<lparr>sg_matchScore := Some score\<rparr>) \<and>
               length (savedGymStore st') = length (savedGymStore st)"
proof -
  from assms(1) have "(userId, gymId) \<in> fst ` set (savedGymStore st)"
    by (auto simp: Mem_getSavedGym_def dest!: map_of_SomeD intro: rev_image_eqI)
  then have "length (AList.update (userId, gymId) v (savedGymStore st)) = length (savedGymStore st)" for v
    by (rule length_update_present)
  with assms show ?thesis
    by (simp add: Mem_saveGym_def Mem_getSavedGym_def truthy_def Let_def update_conv')
qed

lemma Mem_saveGym_distinct:
  "distinct (map fst (savedGymStore st)) \<Longrightarrow>
     distinct (map fst (savedGymStore (snd (Mem_saveGym now savedGymData st))))"
  by (simp add: Mem_saveGym_def Let_def distinct_update split: option.splits)

subsection \<open>The concrete storages\<close>



lemma chat_db_users:
  "Db_getUser chat_db 1 \<noteq> None" "Db_getUser chat_db 2 \<noteq> None" "Db_getUser chat_db 3 \<noteq> None"
  by (simp_all add: Db_getUser_def chat_db_def plain_user_def stretch_user_def proto_user_def)

lemma chat_db_matches: "userMatches chat_db = [accepted_1_2, pending_1_3]"
  by (simp add: chat_db_def)

section \<open>Claims about matches, messages and saved gyms\<close>



text \<open>
  C5: if no match with status \<open>accepted\<close> connects \<open>S\<close> and \<open>R\<close> (in either direction),
  \<open>POST /api/messages\<close> for a message from \<open>S\<close> to \<open>R\<close> is answered with an error and
  the storage, hence the message table, is unchanged; for the authenticated sender \<open>S\<close>
  and an existing receiver \<open>R\<close> the error is the 403 of the match check.
\<close>

theorem c5_unmatched_send_refused:
  assumes "\<forall>m\<in>set (userMatches st). connects S R m \<longrightarrow> um_status m \<noteq> ''accepted''"
  shows "snd (post_messages now auth
                (Some \<lparr>im_senderId = S, im_receiverId = R, im_content = c\<rparr>) st) = st \<and>
         (\<exists>e. fst (post_messages now auth
                (Some \<lparr>im_senderId = S, im_receiverId = R, im_content = c\<rparr>) st) = Inl e) \<and>
         (auth = Some S \<and> Db_getUser st R \<noteq> None \<longrightarrow>
            fst (post_messages now auth
                (Some \<lparr>im_senderId = S, im_receiverId = R, im_content = c\<rparr>) st) =
            Inl (Forbidden ''You can only message users you've matched with''))"
  using Db_lookup_not_accepted [OF assms]
  by (auto simp: post_messages_def split: option.splits)

theorem c5_unmatched_send_refused_witness:
  "post_messages 5 (Some 1) (Some \<lparr>im_senderId = 1, im_receiverId = 3, im_content = ''hello''\<rparr>)
     chat_db
   = (Inl (Forbidden ''You can only message users you've matched with''), chat_db)"
proof -
  have h: "\<forall>m\<in>set (userMatches chat_db). connects 1 3 m \<longrightarrow> um_status m \<noteq> ''accepted''"
    by (simp add: chat_db_matches accepted_1_2_def pending_1_3_def connects_def)
  from c5_unmatched_send_refused [OF h, where auth = "Some 1" and now = 5 and c = "''hello''"]
    chat_db_users(3)
  show ?thesis by (simp add: prod_eq_iff)
qed

text \<open>
  C6: for an existing match \<open>m\<close> and an authenticated actor who is not its receiver,
  \<open>PUT /api/user-matches/:id\<close> with status \<open>accepted\<close> or \<open>rejected\<close> is answered 403
  and the storage is unchanged, so \<open>m\<close> keeps its status and every other field.
\<close>

theorem c6_only_receiver_responds:
  assumes "Db_getUserMatch st matchId = Some m" and "um_receiverId m \<noteq> actor"
    and "status = ''accepted'' \<or> status = ''rejected''"
  shows "put_user_matches now (Some actor) matchId (Some status) st =
           (Inl (Forbidden ''You can only respond to matches sent to you''), st)"
  using assms by (auto simp: put_user_matches_def)

theorem c6_only_receiver_responds_witness:
  "put_user_matches 5 (Some 1) 2 (Some ''accepted'') chat_db =
     (Inl (Forbidden ''You can only respond to matches sent to you''), chat_db) \<and>
   Db_getUserMatch chat_db 2 = Some pending_1_3"
proof -
  have h: "Db_getUserMatch chat_db 2 = Some pending_1_3" "um_receiverId pending_1_3 \<noteq> 1"
    "''accepted'' = ''accepted'' \<or> ''accepted'' = ''rejected''"
    by (simp_all add: Db_getUserMatch_def chat_db_matches accepted_1_2_def pending_1_3_def
        first_row_def)
  from c6_only_receiver_responds [OF h, of 5] h(1) show ?thesis by simp
qed



text \<open>
  C9: a second save of an already saved gym with a supplied match score updates the
  score of the existing record and creates no second record. \<open>MemStorage.saveGym\<close>
  keeps one record for each pair (\<open>Mem_saveGym_distinct\<close>), and
  \<open>DatabaseStorage.saveGym\<close> updates whenever the supplied score differs (\<open>!==\<close>) from
  the stored one. \<open>MemStorage.saveGym\<close> tests \<open>if (savedGymData.matchScore)\<close>
  under the comment "Update match score if provided", so it stores a supplied score
  only when it is not zero (\<open>Mem_saveGym_truthy\<close>): a second save with the score 0 leaves
  the record at 85.
\<close>

theorem c9_zero_score_not_saved:
  "Mem_getSavedGym saved_mem 1 1 = Some saved_1_1 \<and> sg_matchScore saved_1_1 = Some 85 \<and>
   Mem_saveGym 7 \<lparr>isg_userId = 1, isg_gymId = 1, isg_matchScore = Some 0\<rparr> saved_mem
     = (saved_1_1, saved_mem)"
  by (simp add: Mem_saveGym_def Mem_getSavedGym_def saved_mem_def truthy_def)
    (simp add: saved_1_1_def)

end
